theory Spec2Isabelle
  imports Complex_Main
begin

section \<open>Data model of the snapping utilities\<close>

text \<open>
  The development follows \<^verbatim>\<open>src/utils/index.js\<close>. JavaScript numbers are modelled as
  real numbers (non-finite values and rounding are not represented); a value that may
  be \<^verbatim>\<open>undefined\<close> is an \<open>option\<close>; a thrown exception is the left summand of a
  sum type. A coordinate is the pair (longitude, latitude).
\<close>

type_synonym coord = "real \<times> real"

abbreviation lng :: "coord \<Rightarrow> real" where "lng \<equiv> fst"
abbreviation lat :: "coord \<Rightarrow> real" where "lat \<equiv> snd"

datatype geometry =
    Point coord
  | MultiPoint "coord list"
  | LineString "coord list"
  | MultiLineString "coord list list"
  | Polygon "coord list list"
  | MultiPolygon "coord list list list"
  | GeometryCollection "geometry list"

record feature =
  feature_id :: string
  geometry :: geometry

text \<open>
  \<open>TypeError\<close> is raised by the utilities themselves when they read a property of
  \<^verbatim>\<open>undefined\<close>; \<open>LibraryError\<close> is an exception thrown inside a geometry library call.
\<close>

datatype error = TypeError | LibraryError

text \<open>
  The point returned by \<^verbatim>\<open>nearestPointOnLine\<close>: its coordinates and the properties
  \<^verbatim>\<open>index\<close>, \<^verbatim>\<open>multiFeatureIndex\<close> and \<^verbatim>\<open>dist\<close> that the utilities read.
\<close>

record nearest =
  np_coordinates :: coord
  np_index :: nat
  np_multiFeatureIndex :: nat
  np_dist :: real

text \<open>
  The geometry library (\<^verbatim>\<open>@turf/distance\<close>, \<^verbatim>\<open>@turf/midpoint\<close>,
  \<^verbatim>\<open>@turf/nearest-point-on-line\<close>, \<^verbatim>\<open>@turf/nearest-point\<close>) is imported, not part of
  the sources; the functions take it as a parameter. \<open>turf_nearestPoint\<close> returns the
  coordinates of the nearest point of a point set and its \<^verbatim>\<open>distanceToPoint\<close>.
\<close>

record turf =
  turf_distance :: "coord \<Rightarrow> coord \<Rightarrow> real"
  turf_midpoint :: "coord \<Rightarrow> coord \<Rightarrow> coord"
  turf_nearestPointOnLine :: "geometry \<Rightarrow> coord \<Rightarrow> error + nearest"
  turf_nearestPoint :: "coord \<Rightarrow> coord list \<Rightarrow> error + (coord \<times> real)"

text \<open>
  The object built by \<^verbatim>\<open>calcLayerDistances\<close> and completed by \<^verbatim>\<open>calcClosestLayer\<close>.
  The point branches return neither \<^verbatim>\<open>segment\<close> nor \<^verbatim>\<open>isMarker\<close>; \<^verbatim>\<open>layer\<close> is
  attached by the selector.
\<close>

record closest_layer =
  latlng :: coord
  segment :: "coord list option"
  distance :: "real option"
  isMarker :: "bool option"
  layer :: "feature option"

record snap_options =
  snapToMidPoints :: bool
  snapVertexPriorityDistance :: "real option"
  snapPx :: "real option"

record options =
  opt_snap :: bool
  opt_guides :: bool
  snapOptions :: "snap_options option"

text \<open>
  The session state read and written by \<^verbatim>\<open>snap\<close>. \<open>zoom\<close> is \<^verbatim>\<open>state.map.getZoom()\<close>;
  a guide is the coordinate array of its line, written by index through
  \<^verbatim>\<open>updateCoordinate\<close>.
\<close>

record state =
  snapList :: "feature list"
  vertices :: "coord list"
  options :: options
  zoom :: real
  verticalGuide :: "nat \<rightharpoonup> coord"
  horizontalGuide :: "nat \<rightharpoonup> coord"
  showVerticalSnapLine :: bool
  showHorizontalSnapLine :: bool

record event =
  lngLat :: coord
  altKey :: bool

record nearby =
  verticalPx :: "real option"
  horizontalPx :: "real option"

section \<open>JavaScript primitives\<close>

text \<open>Truthiness of a possibly undefined number: \<^verbatim>\<open>undefined\<close> and \<open>0\<close> are falsy.\<close>

definition truthy :: "real option \<Rightarrow> bool" where
  "truthy v = (case v of None \<Rightarrow> False | Some x \<Rightarrow> x \<noteq> 0)"

text \<open>\<^verbatim>\<open>a < b\<close> on possibly undefined numbers: false when either side is undefined.\<close>

definition js_lt :: "real option \<Rightarrow> real option \<Rightarrow> bool" where
  "js_lt a b = (case a of None \<Rightarrow> False | Some x \<Rightarrow> (case b of None \<Rightarrow> False | Some y \<Rightarrow> x < y))"

text \<open>\<^verbatim>\<open>Array.prototype.slice(start, end)\<close>: negative indices count from the end.\<close>

definition js_slice :: "'a list \<Rightarrow> int \<Rightarrow> int \<Rightarrow> 'a list" where
  "js_slice xs start fin =
     (let n = int (length xs);
          k = (if start < 0 then max (n + start) 0 else min start n);
          f = (if fin < 0 then max (n + fin) 0 else min fin n)
      in take (nat (f - k)) (drop (nat k) xs))"

definition updateCoordinate :: "(nat \<rightharpoonup> coord) \<Rightarrow> nat \<Rightarrow> real \<Rightarrow> real \<Rightarrow> (nat \<rightharpoonup> coord)" where
  "updateCoordinate g i x y = g(i \<mapsto> (x, y))"

section \<open>Guide-line resolver\<close>

definition getNearbyvertices :: "coord list \<Rightarrow> coord \<Rightarrow> nearby" where
  "getNearbyvertices vs coords =
     (let verticals = map fst vs;
          horizontals = map snd vs
      in \<lparr> verticalPx = find (\<lambda>px. \<bar>px - lng coords\<bar> < 0.009) verticals,
           horizontalPx = find (\<lambda>py. \<bar>py - lat coords\<bar> < 0.009) horizontals \<rparr>)"

section \<open>Pixel tolerance\<close>

definition metersPerPixel :: "real \<Rightarrow> real \<Rightarrow> real" where
  "metersPerPixel latitude zoomLevel =
     (let earthCircumference = 40075017;
          latitudeRadians = latitude * (pi / 180)
      in (earthCircumference * cos latitudeRadians) / (2 powr (zoomLevel + 8)))"

section \<open>Snap resolution policy\<close>

text \<open>
  \<^verbatim>\<open>snapToLineOrPolygon\<close>. Reading \<^verbatim>\<open>segment[0]\<close> or \<^verbatim>\<open>segment[1]\<close> of a shorter array
  gives \<^verbatim>\<open>undefined\<close>, which the distance function rejects with an exception.
\<close>

definition snapToLineOrPolygon ::
    "turf \<Rightarrow> closest_layer \<Rightarrow> snap_options option \<Rightarrow> real \<Rightarrow> error + coord" where
  "snapToLineOrPolygon L closestLayer snapOpts priority =
     (case segment closestLayer of
        Some (A # B # _) \<Rightarrow>
          (let C = latlng closestLayer;
               distanceAC = turf_distance L A C;
               distanceBC = turf_distance L B C;
               closestVertexLatLng = (if distanceAC < distanceBC then A else B);
               shortestDistance = (if distanceAC < distanceBC then distanceAC else distanceBC);
               M = turf_midpoint L A B;
               distanceMC = turf_distance L M C;
               useM = ((case snapOpts of None \<Rightarrow> False | Some so \<Rightarrow> snapToMidPoints so)
                        \<and> distanceMC < distanceAC \<and> distanceMC < distanceBC);
               closestVertexLatLng' = (if useM then M else closestVertexLatLng);
               shortestDistance' = (if useM then distanceMC else shortestDistance);
               priorityDistance = priority
           in Inr (if shortestDistance' < priorityDistance then closestVertexLatLng' else C))
      | _ \<Rightarrow> Inl LibraryError)"

definition snapToPoint :: "closest_layer \<Rightarrow> coord" where
  "snapToPoint closestLayer = latlng closestLayer"

text \<open>
  \<^verbatim>\<open>checkPrioritiySnapping\<close>; the default parameter value 1.25 applies when the caller
  passes \<^verbatim>\<open>undefined\<close>.
\<close>

definition checkPrioritiySnapping ::
    "turf \<Rightarrow> closest_layer \<Rightarrow> snap_options option \<Rightarrow> real option \<Rightarrow> error + coord" where
  "checkPrioritiySnapping L closestLayer snapOpts priority =
     (let pd = (case priority of None \<Rightarrow> 1.25 | Some d \<Rightarrow> d);
          snappingToPoint = (segment closestLayer = None)
      in if snappingToPoint then Inr (snapToPoint closestLayer)
         else snapToLineOrPolygon L closestLayer snapOpts pd)"

section \<open>Geometry distance kernel\<close>

definition bindE :: "error + 'a \<Rightarrow> ('a \<Rightarrow> error + 'b) \<Rightarrow> error + 'b" where
  "bindE m f = (case m of Inl e \<Rightarrow> Inl e | Inr x \<Rightarrow> f x)"

text \<open>\<^verbatim>\<open>Array.prototype.map\<close> with a callback that may throw: the first exception aborts.\<close>

fun mapE :: "('a \<Rightarrow> error + 'b) \<Rightarrow> 'a list \<Rightarrow> error + 'b list" where
  "mapE f [] = Inr []"
| "mapE f (x # xs) = bindE (f x) (\<lambda>y. bindE (mapE f xs) (\<lambda>ys. Inr (y # ys)))"

text \<open>
  The \<^verbatim>\<open>lineString\<close> constructor of \<^verbatim>\<open>@turf/helpers\<close> builds a LineString feature and
  rejects fewer than two positions.
\<close>

definition turfLineString :: "coord list \<Rightarrow> error + geometry" where
  "turfLineString coords = (if length coords < 2 then Inl LibraryError else Inr (LineString coords))"

text \<open>
  Modelled from the spec: the boundary conversion of the imported package
  \<^verbatim>\<open>@turf/polygon-to-line\<close>, which is not part of the sources. A polygon with a single
  ring becomes one line, a polygon with several rings a MultiLineString of its rings;
  a MultiPolygon becomes the collection of the conversions of its polygons. A polygon
  without rings has no first ring to build a line from.
\<close>

definition coordsToLine :: "coord list list \<Rightarrow> error + geometry" where
  "coordsToLine coords =
     (if length coords > 1 then Inr (MultiLineString coords)
      else (case coords of [] \<Rightarrow> Inl LibraryError | r # _ \<Rightarrow> turfLineString r))"

definition polygonToLine :: "coord list list \<Rightarrow> error + geometry" where
  "polygonToLine rings = coordsToLine rings"

definition multiPolygonToLine :: "coord list list list \<Rightarrow> error + geometry list" where
  "multiPolygonToLine polys = mapE coordsToLine polys"

text \<open>
  \<^verbatim>\<open>getFeatureWithNearestPoint\<close>: the comparator orders by \<^verbatim>\<open>dist\<close> and the sort is
  stable; element 0 of an empty array is \<^verbatim>\<open>undefined\<close> and reading its \<^verbatim>\<open>feature\<close> throws.
\<close>

definition getFeatureWithNearestPoint ::
    "turf \<Rightarrow> geometry list \<Rightarrow> coord \<Rightarrow> error + (geometry \<times> nearest)" where
  "getFeatureWithNearestPoint L lineStrings P =
     bindE (mapE (\<lambda>feat. bindE (turf_nearestPointOnLine L feat P) (\<lambda>pt. Inr (feat, pt))) lineStrings)
       (\<lambda>nearestPointsOfEachFeature.
          case sort_key (\<lambda>a. np_dist (snd a)) nearestPointsOfEachFeature of
            [] \<Rightarrow> Inl TypeError
          | a # _ \<Rightarrow> Inr a)"

text \<open>
  The \<^verbatim>\<open>coordinates\<close> that lines 172 to 177 of \<^verbatim>\<open>calcLayerDistances\<close> select from
  \<^verbatim>\<open>lines.geometry\<close>: the line itself, or the member of a MultiLineString at
  \<^verbatim>\<open>multiFeatureIndex\<close>. A geometry collection has no \<^verbatim>\<open>coordinates\<close> and an index
  outside the array reads \<^verbatim>\<open>undefined\<close>. Only these three kinds reach that place.
\<close>

definition lineCoordinates :: "geometry \<Rightarrow> nearest \<Rightarrow> coord list option" where
  "lineCoordinates lines nearestPoint =
     (case lines of
        LineString cs \<Rightarrow> Some cs
      | MultiLineString css \<Rightarrow>
          (if np_multiFeatureIndex nearestPoint < length css
           then Some (css ! np_multiFeatureIndex nearestPoint) else None)
      | _ \<Rightarrow> None)"

text \<open>
  Lines 169 to 192 of \<^verbatim>\<open>calcLayerDistances\<close>, common to its line and polygon branches.
  Reading \<^verbatim>\<open>coordinates.length\<close> of \<^verbatim>\<open>undefined\<close> throws.
\<close>

definition lineResults :: "geometry \<Rightarrow> nearest \<Rightarrow> error + closest_layer" where
  "lineResults lines nearestPoint =
     (case lineCoordinates lines nearestPoint of
        None \<Rightarrow> Inl TypeError
      | Some coordinates \<Rightarrow>
          (let segmentIndex =
                 (if int (np_index nearestPoint) + 1 \<ge> int (length coordinates)
                  then int (length coordinates) - 2
                  else int (np_index nearestPoint))
           in Inr \<lparr> latlng = np_coordinates nearestPoint,
                    segment = Some (js_slice coordinates segmentIndex (segmentIndex + 2)),
                    distance = Some (np_dist nearestPoint),
                    isMarker = Some False,
                    layer = None \<rparr>))"

definition calcLayerDistances :: "turf \<Rightarrow> coord \<Rightarrow> feature \<Rightarrow> error + closest_layer" where
  "calcLayerDistances L P l =
     (case geometry l of
        Point latlngs \<Rightarrow>
          Inr \<lparr> latlng = latlngs, segment = None,
                distance = Some (turf_distance L latlngs P),
                isMarker = None, layer = None \<rparr>
      | MultiPoint latlngs \<Rightarrow>
          bindE (turf_nearestPoint L P latlngs)
            (\<lambda>np. Inr \<lparr> latlng = fst np, segment = None, distance = Some (snd np),
                         isMarker = None, layer = None \<rparr>)
      | Polygon rings \<Rightarrow>
          bindE (polygonToLine rings)
            (\<lambda>lines.
               bindE (case lines of
                        LineString cs \<Rightarrow> mapE turfLineString [cs]
                      | MultiLineString css \<Rightarrow> mapE turfLineString css
                      | _ \<Rightarrow> Inl TypeError)
                 (\<lambda>lineStrings.
                    bindE (getFeatureWithNearestPoint L lineStrings P)
                      (\<lambda>closestFeature. lineResults (fst closestFeature) (snd closestFeature))))
      | MultiPolygon polys \<Rightarrow>
          bindE (multiPolygonToLine polys)
            (\<lambda>features.
               bindE (mapE turfLineString
                        (concat (map (\<lambda>feat. case feat of
                                               LineString cs \<Rightarrow> [cs]
                                             | MultiLineString css \<Rightarrow> css
                                             | _ \<Rightarrow> []) features)))
                 (\<lambda>lineStrings.
                    bindE (getFeatureWithNearestPoint L lineStrings P)
                      (\<lambda>closestFeature. lineResults (fst closestFeature) (snd closestFeature))))
      | lines \<Rightarrow>
          bindE (turf_nearestPointOnLine L lines P) (\<lambda>nearestPoint. lineResults lines nearestPoint))"

section \<open>Closest-feature selector\<close>

text \<open>The body of the \<^verbatim>\<open>forEach\<close> callback of \<^verbatim>\<open>calcClosestLayer\<close> after the kernel call.\<close>

definition closestLayer_step ::
    "closest_layer option \<Rightarrow> feature \<Rightarrow> closest_layer \<Rightarrow> closest_layer option" where
  "closestLayer_step closestLayer l results =
     (let recorded = (case closestLayer of None \<Rightarrow> None | Some c \<Rightarrow> distance c)
      in if recorded = None \<or> js_lt (distance results) recorded
         then Some (results\<lparr> layer := Some l \<rparr>)
         else closestLayer)"

fun calcClosestLayer_loop ::
    "turf \<Rightarrow> coord \<Rightarrow> feature list \<Rightarrow> closest_layer option \<Rightarrow> error + closest_layer option" where
  "calcClosestLayer_loop L P [] closestLayer = Inr closestLayer"
| "calcClosestLayer_loop L P (l # layers) closestLayer =
     bindE (calcLayerDistances L P l)
       (\<lambda>results. calcClosestLayer_loop L P layers (closestLayer_step closestLayer l results))"

text \<open>The empty object \<^verbatim>\<open>{}\<close> the loop starts from is \<open>None\<close>.\<close>

definition calcClosestLayer :: "turf \<Rightarrow> coord \<Rightarrow> feature list \<Rightarrow> error + closest_layer option" where
  "calcClosestLayer L P layers = calcClosestLayer_loop L P layers None"

section \<open>Snap orchestrator\<close>

text \<open>
  What lines 348 to 379 of \<^verbatim>\<open>snap\<close> leave behind: the early return of line 356, the
  three variables still \<^verbatim>\<open>undefined\<close> when feature snapping is off, or the closest
  layer with its snap coordinate and \<^verbatim>\<open>minDistance\<close>.
\<close>

datatype feature_snap =
    EarlyReturn
  | NotRun
  | Found closest_layer coord real

definition snapFeatures :: "turf \<Rightarrow> state \<Rightarrow> coord \<Rightarrow> error + feature_snap" where
  "snapFeatures L st p =
     (if opt_snap (options st) then
        bindE (calcClosestLayer L p (snapList st))
          (\<lambda>closestLayer.
             case closestLayer of
               None \<Rightarrow> Inr EarlyReturn
             | Some cl \<Rightarrow>
                 (let so = snapOptions (options st);
                      priority = (case so of None \<Rightarrow> None
                                  | Some opts \<Rightarrow> snapVertexPriorityDistance opts);
                      px = (case so of None \<Rightarrow> 50
                            | Some opts \<Rightarrow> (case snapPx opts of None \<Rightarrow> 50
                                          | Some v \<Rightarrow> if v \<noteq> 0 then v else 50));
                      minDistance = px * metersPerPixel (lat p) (zoom st)
                  in bindE (if isMarker cl \<noteq> Some True
                            then checkPrioritiySnapping L cl so priority
                            else Inr (latlng cl))
                       (\<lambda>snapLatLng. Inr (Found cl snapLatLng minDistance))))
      else Inr NotRun)"

text \<open>Lines 381 to 418 of \<^verbatim>\<open>snap\<close>: the guide lines and their visibility flags.\<close>

definition snapGuides :: "state \<Rightarrow> coord \<Rightarrow> state \<times> nearby" where
  "snapGuides st p =
     (if opt_guides (options st) then
        (let nearestGuidline = getNearbyvertices (vertices st) p;
             st1 = (case verticalPx nearestGuidline of
                      Some v \<Rightarrow>
                        if v \<noteq> 0
                        then st\<lparr> verticalGuide :=
                                  updateCoordinate
                                    (updateCoordinate (verticalGuide st) 0 v (lat p + 10))
                                    1 v (lat p - 10) \<rparr>
                        else st
                    | None \<Rightarrow> st);
             st2 = (case horizontalPx nearestGuidline of
                      Some h \<Rightarrow>
                        if h \<noteq> 0
                        then st1\<lparr> horizontalGuide :=
                                   updateCoordinate
                                     (updateCoordinate (horizontalGuide st1) 0 (lng p + 10) h)
                                     1 (lng p - 10) h \<rparr>
                        else st1
                    | None \<Rightarrow> st1)
         in (st2\<lparr> showVerticalSnapLine := truthy (verticalPx nearestGuidline),
                   showHorizontalSnapLine := truthy (horizontalPx nearestGuidline) \<rparr>,
             nearestGuidline))
      else (st, \<lparr> verticalPx = None, horizontalPx = None \<rparr>))"

text \<open>Lines 420 to 432 of \<^verbatim>\<open>snap\<close>: the final decision.\<close>

definition snapDecision :: "feature_snap \<Rightarrow> nearby \<Rightarrow> coord \<Rightarrow> coord" where
  "snapDecision fs g p =
     (if (case fs of
            Found cl snapLatLng minDistance \<Rightarrow>
              js_lt (map_option (\<lambda>d. d * 1000) (distance cl)) (Some minDistance)
          | _ \<Rightarrow> False)
      then (case fs of Found cl snapLatLng minDistance \<Rightarrow> snapLatLng | _ \<Rightarrow> p)
      else if truthy (verticalPx g) \<or> truthy (horizontalPx g)
      then ((case verticalPx g of Some v \<Rightarrow> if v \<noteq> 0 then v else lng p | None \<Rightarrow> lng p),
            (case horizontalPx g of Some h \<Rightarrow> if h \<noteq> 0 then h else lat p | None \<Rightarrow> lat p))
      else p)"

text \<open>
  \<^verbatim>\<open>snap\<close> returns the resolved coordinate and the state as it has mutated it; an
  exception leaves the state as it was, since every call that can throw comes before
  the first write.
\<close>

definition snap :: "turf \<Rightarrow> state \<Rightarrow> event \<Rightarrow> error + (state \<times> coord)" where
  "snap L st e =
     (let p = lngLat e
      in if altKey e
         then Inr (st\<lparr> showVerticalSnapLine := False, showHorizontalSnapLine := False \<rparr>, p)
         else if length (snapList st) \<le> 0 then Inr (st, p)
         else bindE (snapFeatures L st p)
                (\<lambda>fs. case fs of
                         EarlyReturn \<Rightarrow> Inr (st, p)
                       | _ \<Rightarrow> (let r = snapGuides st p
                               in Inr (fst r, snapDecision fs (snd r) p))))"

section \<open>A planar instance of the geometry library\<close>

text \<open>
  An executable instance of the library interface on which the functions can be run:
  distances are measured along the axes at 100 km per degree, and the nearest point of
  a line is its nearest vertex (the first one at minimal distance).
\<close>

definition planar_distance :: "coord \<Rightarrow> coord \<Rightarrow> real" where
  "planar_distance p q = 100 * (\<bar>lng p - lng q\<bar> + \<bar>lat p - lat q\<bar>)"

fun planar_scan :: "coord \<Rightarrow> coord list \<Rightarrow> (nat \<times> coord \<times> real) option" where
  "planar_scan P [] = None"
| "planar_scan P (c # cs) =
     (case planar_scan P cs of
        None \<Rightarrow> Some (0, c, planar_distance c P)
      | Some (i, c', d') \<Rightarrow>
          if planar_distance c P \<le> d' then Some (0, c, planar_distance c P)
          else Some (Suc i, c', d'))"

definition planar_nearestPointOnLine :: "geometry \<Rightarrow> coord \<Rightarrow> error + nearest" where
  "planar_nearestPointOnLine lines P =
     (case lines of
        LineString cs \<Rightarrow>
          (case planar_scan P cs of
             None \<Rightarrow> Inl LibraryError
           | Some (i, c, d) \<Rightarrow>
               Inr \<lparr> np_coordinates = c, np_index = i, np_multiFeatureIndex = 0, np_dist = d \<rparr>)
      | _ \<Rightarrow> Inl LibraryError)"

definition planar_nearestPoint :: "coord \<Rightarrow> coord list \<Rightarrow> error + (coord \<times> real)" where
  "planar_nearestPoint P pts =
     (case planar_scan P pts of
        None \<Rightarrow> Inl LibraryError
      | Some (i, c, d) \<Rightarrow> Inr (c, d))"

definition planar :: turf where
  "planar = \<lparr> turf_distance = planar_distance,
              turf_midpoint = (\<lambda>p q. ((lng p + lng q) / 2, (lat p + lat q) / 2)),
              turf_nearestPointOnLine = planar_nearestPointOnLine,
              turf_nearestPoint = planar_nearestPoint \<rparr>"

section \<open>Notions used to state the properties\<close>



text \<open>
  The start of the segment for a nearest point reported at index \<open>i\<close> on a line of
  \<open>n\<close> coordinates: \<open>i\<close> itself, or the start of the last pair when \<open>i + 1\<close> is out
  of bounds.
\<close>

definition clampedIndex :: "nat \<Rightarrow> nat \<Rightarrow> nat" where
  "clampedIndex i n = (if i + 1 \<ge> n then n - 2 else i)"

section \<open>Sample sessions\<close>

text \<open>
  A session whose only candidate is a point on the prime meridian and the equator, at
  zoom 20, and a pointer 0.001 degrees east of it.
\<close>

definition origin_session :: state where
  "origin_session =
     \<lparr> snapList = [\<lparr> feature_id = ''origin'', geometry = Point (0, 0) \<rparr>],
       vertices = [(0, 0)],
       options = \<lparr> opt_snap = True, opt_guides = True, snapOptions = None \<rparr>,
       zoom = 20,
       verticalGuide = Map.empty, horizontalGuide = Map.empty,
       showVerticalSnapLine = True, showHorizontalSnapLine = True \<rparr>"

definition origin_event :: event where
  "origin_event = \<lparr> lngLat = (0.001, 0), altKey = False \<rparr>"

text \<open>A session with one vertex at longitude 10 and a pointer at longitude 10.0005.\<close>

definition guided_session :: state where
  "guided_session =
     \<lparr> snapList = [\<lparr> feature_id = ''marker'', geometry = Point (10, 20) \<rparr>],
       vertices = [(10, 20)],
       options = \<lparr> opt_snap = True, opt_guides = True, snapOptions = None \<rparr>,
       zoom = 20,
       verticalGuide = Map.empty, horizontalGuide = Map.empty,
       showVerticalSnapLine = False, showHorizontalSnapLine = False \<rparr>"

definition guided_event :: event where
  "guided_event = \<lparr> lngLat = (10.0005, 0), altKey = False \<rparr>"

definition bypass_event :: event where
  "bypass_event = \<lparr> lngLat = (10.0005, 0), altKey = True \<rparr>"

definition track :: feature where
  "track = \<lparr> feature_id = ''track'', geometry = LineString [(0, 0), (1, 0), (2, 0)] \<rparr>"




lemmas run_defs = snap_def snapFeatures_def calcClosestLayer_def calcLayerDistances_def
  closestLayer_step_def checkPrioritiySnapping_def snapToPoint_def metersPerPixel_def
  snapGuides_def getNearbyvertices_def snapDecision_def truthy_def js_lt_def planar_def
  planar_distance_def updateCoordinate_def bindE_def Let_def

section \<open>Pixel tolerance: properties\<close>


lemma metersPerPixel_60: "metersPerPixel 60 0 = 40075017 / 512"
proof -
  have "(60::real) * (pi / 180) = pi / 3" by simp
  then show ?thesis by (simp add: metersPerPixel_def cos_60)
qed



section \<open>Snap resolution policy: properties\<close>

text \<open>
  C2. For a result whose segment has the endpoints \<open>A\<close> and \<open>B\<close> and whose nearest point
  is \<open>C\<close>: \<open>V\<close> is the nearer of \<open>A\<close> and \<open>B\<close> to \<open>C\<close> and \<open>vDist\<close> its distance; when
  \<open>snapToMidPoints\<close> is enabled and the midpoint \<open>M\<close> is strictly nearer to \<open>C\<close> than both
  \<open>A\<close> and \<open>B\<close>, \<open>V\<close> is \<open>M\<close> and \<open>vDist\<close> that distance; the resolved coordinate is \<open>V\<close>
  when \<open>vDist\<close> is below the priority distance (1.25 when none is given), and \<open>C\<close>
  otherwise.
\<close>

theorem resolve_segment_priority:
  assumes seg: "segment r = Some [A, B]"
  shows "checkPrioritiySnapping L r opts prio =
           Inr (let C = latlng r;
                    dA = turf_distance L A C;
                    dB = turf_distance L B C;
                    M = turf_midpoint L A B;
                    dM = turf_distance L M C;
                    mid = (\<exists>so. opts = Some so \<and> snapToMidPoints so);
                    pd = (case prio of None \<Rightarrow> 1.25 | Some d \<Rightarrow> d);
                    V = (if mid \<and> dM < dA \<and> dM < dB then M else if dA < dB then A else B);
                    vDist = (if mid \<and> dM < dA \<and> dM < dB then dM else min dA dB)
                in if vDist < pd then V else C)"
  using seg
  by (cases opts)
     (simp_all add: checkPrioritiySnapping_def snapToLineOrPolygon_def snapToPoint_def Let_def min_def)

theorem resolve_segment_priority_witness:
  "segment \<lparr> latlng = (0, 0.01), segment = Some [(0, 0), (0, 1)], distance = Some 0,
             isMarker = Some False, layer = None \<rparr> = Some [(0, 0), (0, 1)]
   \<and> checkPrioritiySnapping planar
        \<lparr> latlng = (0, 0.01), segment = Some [(0, 0), (0, 1)], distance = Some 0,
          isMarker = Some False, layer = None \<rparr> None None = Inr (0, 0)
   \<and> checkPrioritiySnapping planar
        \<lparr> latlng = (0, 0.01), segment = Some [(0, 0), (0, 1)], distance = Some 0,
          isMarker = Some False, layer = None \<rparr> None (Some 0) = Inr (0, 0.01)"
  using resolve_segment_priority[of "\<lparr> latlng = (0, 0.01), segment = Some [(0, 0), (0, 1)],
          distance = Some 0, isMarker = Some False, layer = None \<rparr>" "(0,0)" "(0,1)" planar None None]
        resolve_segment_priority[of "\<lparr> latlng = (0, 0.01), segment = Some [(0, 0), (0, 1)],
          distance = Some 0, isMarker = Some False, layer = None \<rparr>" "(0,0)" "(0,1)" planar None "Some 0"]
  by (simp add: planar_def planar_distance_def)

section \<open>Snap orchestrator: properties\<close>

lemma snapFeatures_cong:
  "options st' = options st \<Longrightarrow> snapList st' = snapList st \<Longrightarrow> zoom st' = zoom st
     \<Longrightarrow> snapFeatures L st' p = snapFeatures L st p"
  unfolding snapFeatures_def Let_def
  by (simp cong del: if_weak_cong option.case_cong_weak cong: if_cong option.case_cong)

lemma snapGuides_frame:
  "options (fst (snapGuides st p)) = options st"
  "snapList (fst (snapGuides st p)) = snapList st"
  "zoom (fst (snapGuides st p)) = zoom st"
  "vertices (fst (snapGuides st p)) = vertices st"
  by (simp_all add: snapGuides_def Let_def split: option.splits)

lemma updateCoordinate_twice:
  "updateCoordinate (updateCoordinate (updateCoordinate (updateCoordinate g i a b) j c d) i a b) j c d
     = updateCoordinate (updateCoordinate g i a b) j c d"
  by (rule ext) (simp add: updateCoordinate_def)

lemma snapGuides_idem:
  "snapGuides (fst (snapGuides st p)) p = snapGuides st p"
proof (cases "opt_guides (options st)")
  case False
  then show ?thesis by (simp add: snapGuides_def)
next
  case True
  obtain v h where g: "getNearbyvertices (vertices st) p = \<lparr> verticalPx = v, horizontalPx = h \<rparr>"
    by (cases "getNearbyvertices (vertices st) p") auto
  show ?thesis
    using True g
    by (cases v; cases h)
       (simp_all add: snapGuides_def Let_def updateCoordinate_twice)
qed

lemma snap_unfold:
  "\<not> altKey e \<Longrightarrow> snapList st \<noteq> [] \<Longrightarrow>
   snap L st e =
     bindE (snapFeatures L st (lngLat e))
       (\<lambda>fs. if fs = EarlyReturn then Inr (st, lngLat e)
             else Inr (fst (snapGuides st (lngLat e)),
                       snapDecision fs (snd (snapGuides st (lngLat e))) (lngLat e)))"
  unfolding snap_def Let_def bindE_def
  by (cases "snapFeatures L st (lngLat e)") (simp_all split: feature_snap.splits)

text \<open>
  C3. With the bypass modifier held, whatever the candidates, the vertices and the
  options, \<open>snap\<close> sets both guide-visibility flags to false and returns the raw event
  coordinate.
\<close>

theorem snap_bypass:
  assumes "altKey e"
  shows "\<exists>st'. snap L st e = Inr (st', lngLat e)
           \<and> \<not> showVerticalSnapLine st' \<and> \<not> showHorizontalSnapLine st'"
  using assms by (simp add: snap_def)

theorem snap_bypass_witness:
  "altKey bypass_event
   \<and> showVerticalSnapLine origin_session \<and> showHorizontalSnapLine origin_session
   \<and> (\<exists>st'. snap planar origin_session bypass_event = Inr (st', (10.0005, 0))
         \<and> \<not> showVerticalSnapLine st' \<and> \<not> showHorizontalSnapLine st')"
  using snap_bypass[of bypass_event planar origin_session]
  by (simp add: bypass_event_def origin_session_def)

text \<open>
  C9. Calling \<open>snap\<close> a second time with the same event, on the state the first call
  left behind, resolves to the same coordinate: the guide state written by the first
  call does not influence the second.
\<close>

theorem snap_idempotent:
  assumes "snap L st e = Inr (st', c)"
  shows "snap L st' e = Inr (st', c)"
proof (cases "altKey e")
  case True
  with assms have "st' = st\<lparr> showVerticalSnapLine := False, showHorizontalSnapLine := False \<rparr>"
    and "c = lngLat e" by (simp_all add: snap_def)
  with True show ?thesis by (simp add: snap_def)
next
  case alt: False
  show ?thesis
  proof (cases "snapList st = []")
    case True
    with alt assms have "st' = st" "c = lngLat e" by (simp_all add: snap_def)
    with alt True show ?thesis by (simp add: snap_def)
  next
    case ne: False
    from assms alt ne obtain fs where fs: "snapFeatures L st (lngLat e) = Inr fs"
      by (cases "snapFeatures L st (lngLat e)") (simp_all add: snap_unfold bindE_def)
    show ?thesis
    proof (cases "fs = EarlyReturn")
      case True
      with assms alt ne fs have "st' = st" "c = lngLat e"
        by (simp_all add: snap_unfold bindE_def)
      with alt ne fs True show ?thesis by (simp add: snap_unfold bindE_def)
    next
      case False
      with assms alt ne fs have st': "st' = fst (snapGuides st (lngLat e))"
        and c: "c = snapDecision fs (snd (snapGuides st (lngLat e))) (lngLat e)"
        by (simp_all add: snap_unfold bindE_def)
      have 1: "snapFeatures L st' (lngLat e) = Inr fs"
        unfolding st'
        using fs snapFeatures_cong[of "fst (snapGuides st (lngLat e))" st L "lngLat e"]
        by (simp add: snapGuides_frame)
      have 2: "snapList st' \<noteq> []" unfolding st' using ne by (simp add: snapGuides_frame)
      have 3: "snapGuides st' (lngLat e) = snapGuides st (lngLat e)"
        unfolding st' by (rule snapGuides_idem)
      show ?thesis
        unfolding snap_unfold[OF alt 2] 1 3 bindE_def
        using False c st' by simp
    qed
  qed
qed

theorem snap_idempotent_witness:
  "snap planar guided_session guided_event =
     Inr (guided_session\<lparr> verticalGuide := [0 \<mapsto> (10, 10), 1 \<mapsto> (10, -10)],
                          showVerticalSnapLine := True \<rparr>, (10, 0))
   \<and> snap planar (guided_session\<lparr> verticalGuide := [0 \<mapsto> (10, 10), 1 \<mapsto> (10, -10)],
                                 showVerticalSnapLine := True \<rparr>) guided_event =
     Inr (guided_session\<lparr> verticalGuide := [0 \<mapsto> (10, 10), 1 \<mapsto> (10, -10)],
                          showVerticalSnapLine := True \<rparr>, (10, 0))"
proof -
  have first: "snap planar guided_session guided_event =
     Inr (guided_session\<lparr> verticalGuide := [0 \<mapsto> (10, 10), 1 \<mapsto> (10, -10)],
                          showVerticalSnapLine := True \<rparr>, (10, 0))"
    by (simp add: run_defs guided_session_def guided_event_def)
  from first snap_idempotent[OF first] show ?thesis by simp
qed

section \<open>Geometry distance kernel: properties\<close>




lemma js_slice_pair:
  assumes "k + 1 < length xs"
  shows "js_slice xs (int k) (int k + 2) = [xs ! k, xs ! Suc k]"
proof -
  have "take 2 (drop k xs) = [xs ! k, xs ! Suc k]"
    using assms
    by (metis Cons_nth_drop_Suc Suc_eq_plus1 Suc_lessD numeral_2_eq_2 take0 take_Suc_Cons)
  moreover have "nat (min (int k + 2) (int (length xs)) - min (int k) (int (length xs))) = 2"
    using assms by (simp add: min_def)
  moreover have "nat (min (int k) (int (length xs))) = k"
    using assms by (simp add: min_def)
  ultimately show ?thesis
    by (simp add: js_slice_def Let_def)
qed


lemma lineResults_LineString:
  assumes "2 \<le> length cs"
  shows "lineResults (LineString cs) np =
           Inr \<lparr> latlng = np_coordinates np,
                 segment = Some [cs ! clampedIndex (np_index np) (length cs),
                                 cs ! Suc (clampedIndex (np_index np) (length cs))],
                 distance = Some (np_dist np), isMarker = Some False, layer = None \<rparr>"
proof (cases "np_index np + 1 \<ge> length cs")
  case True
  then have k: "clampedIndex (np_index np) (length cs) = length cs - 2"
    by (simp add: clampedIndex_def)
  have "js_slice cs (int (length cs - 2)) (int (length cs - 2) + 2)
          = [cs ! (length cs - 2), cs ! Suc (length cs - 2)]"
    using assms by (intro js_slice_pair) simp
  moreover have "int (length cs - 2) = int (length cs) - 2" using assms by simp
  ultimately show ?thesis
    using True by (simp add: lineResults_def lineCoordinates_def Let_def k)
next
  case False
  then have k: "clampedIndex (np_index np) (length cs) = np_index np"
    by (simp add: clampedIndex_def)
  have "js_slice cs (int (np_index np)) (int (np_index np) + 2)
          = [cs ! np_index np, cs ! Suc (np_index np)]"
    using False by (intro js_slice_pair) simp
  then show ?thesis
    using False by (simp add: lineResults_def lineCoordinates_def Let_def k)
qed











lemma clampedIndex_three: "clampedIndex i 3 = 0 \<or> clampedIndex i 3 = 1"
  by (auto simp: clampedIndex_def)

text \<open>
  C8. For a LineString with the vertices \<open>A\<close>, \<open>B\<close>, \<open>C\<close> and a query point at \<open>B\<close>, the
  resolved coordinate is \<open>B\<close> for every priority distance and every option setting. The
  library is assumed to report \<open>B\<close> itself as the nearest point, distances that are
  never negative and zero from \<open>B\<close> to itself, and a positive distance between \<open>C\<close> and
  \<open>B\<close> unless \<open>C\<close> has the coordinates of \<open>B\<close>.
\<close>

theorem vertex_query_resolves_to_vertex:
  assumes g: "geometry l = LineString [A, B, C]"
    and np: "turf_nearestPointOnLine L (LineString [A, B, C]) B = Inr np"
    and at: "np_coordinates np = B"
    and nonneg: "\<forall>x y. 0 \<le> turf_distance L x y"
    and self: "turf_distance L B B = 0"
    and sep: "turf_distance L C B = 0 \<longrightarrow> C = B"
  shows "\<exists>r. calcLayerDistances L B l = Inr r
              \<and> checkPrioritiySnapping L r opts prio = Inr B"
proof -
  let ?k = "clampedIndex (np_index np) 3"
  let ?r = "\<lparr> latlng = B, segment = Some [[A, B, C] ! ?k, [A, B, C] ! Suc ?k],
               distance = Some (np_dist np), isMarker = Some False, layer = None \<rparr>"
  have run: "calcLayerDistances L B l = Inr ?r"
    using g np at lineResults_LineString[of "[A, B, C]" np]
    by (simp add: calcLayerDistances_def bindE_def numeral_3_eq_3)
  have dA: "0 \<le> turf_distance L A B" and dC: "0 \<le> turf_distance L C B"
    and dM: "\<And>m. 0 \<le> turf_distance L m B"
    using nonneg by blast+
  from clampedIndex_three[of "np_index np"]
  have "checkPrioritiySnapping L ?r opts prio = Inr B"
  proof
    assume k: "?k = 0"
    have "\<not> turf_distance L A B < 0" using dA by simp
    moreover have "\<not> turf_distance L (turf_midpoint L A B) B < 0"
      using dM[of "turf_midpoint L A B"] by simp
    ultimately show ?thesis
      unfolding k
      by (simp add: checkPrioritiySnapping_def snapToLineOrPolygon_def snapToPoint_def Let_def self)
  next
    assume k: "?k = 1"
    have m: "\<not> turf_distance L (turf_midpoint L B C) B < 0"
      using dM[of "turf_midpoint L B C"] by simp
    show ?thesis
    proof (cases "0 < turf_distance L C B")
      case True
      with m show ?thesis
        unfolding k
        by (simp add: checkPrioritiySnapping_def snapToLineOrPolygon_def snapToPoint_def Let_def self)
    next
      case False
      with dC have z: "turf_distance L C B = 0" by simp
      with sep have "C = B" by simp
      with m z show ?thesis
        unfolding k
        by (simp add: checkPrioritiySnapping_def snapToLineOrPolygon_def snapToPoint_def Let_def self)
    qed
  qed
  with run show ?thesis by blast
qed

lemma planar_distance_nonneg: "\<forall>x y. 0 \<le> turf_distance planar x y"
  by (simp add: planar_def planar_distance_def)

lemma planar_track_middle:
  "turf_nearestPointOnLine planar (LineString [(0, 0), (1, 0), (2, 0)]) (1, 0) =
     Inr \<lparr> np_coordinates = (1, 0), np_index = 1, np_multiFeatureIndex = 0, np_dist = 0 \<rparr>"
  by (simp add: planar_def planar_nearestPointOnLine_def planar_distance_def)

theorem vertex_query_resolves_to_vertex_witness:
  "geometry track = LineString [(0, 0), (1, 0), (2, 0)]
   \<and> turf_distance planar (1, 0) (1, 0) = 0
   \<and> turf_distance planar (2, 0) (1, 0) = 100
   \<and> (\<exists>r. calcLayerDistances planar (1, 0) track = Inr r
         \<and> checkPrioritiySnapping planar r None (Some 0) = Inr (1, 0))"
proof -
  have g: "geometry track = LineString [(0, 0), (1, 0), (2, 0)]" by (simp add: track_def)
  have self: "turf_distance planar (1, 0) (1, 0) = 0" by (simp add: planar_def planar_distance_def)
  have far: "turf_distance planar (2, 0) (1, 0) = 100" by (simp add: planar_def planar_distance_def)
  then have sep: "turf_distance planar (2, 0) (1, 0) = 0 \<longrightarrow> (2::real, 0::real) = (1, 0)" by simp
  have at: "np_coordinates \<lparr> np_coordinates = (1::real, 0::real), np_index = 1, np_multiFeatureIndex = 0, np_dist = 0 \<rparr> = (1, 0)"
    by simp
  from vertex_query_resolves_to_vertex[OF g planar_track_middle at planar_distance_nonneg self sep,
        of None "Some 0"] g self far
  show ?thesis by blast
qed

section \<open>Closest-feature selector: properties\<close>

lemma closestLayer_step_None: "closestLayer_step None l results = Some (results\<lparr> layer := Some l \<rparr>)"
  by (simp add: closestLayer_step_def)

lemma closestLayer_step_Some: "\<exists>c'. closestLayer_step (Some c) l results = Some c'"
  by (simp add: closestLayer_step_def Let_def)

lemma calcClosestLayer_loop_Some:
  "calcClosestLayer_loop L P ls (Some c) = Inr r \<Longrightarrow> r \<noteq> None"
proof (induction ls arbitrary: c)
  case Nil
  then show ?case by auto
next
  case (Cons l ls)
  from Cons.prems obtain res where res: "calcLayerDistances L P l = Inr res"
    and rest: "calcClosestLayer_loop L P ls (closestLayer_step (Some c) l res) = Inr r"
    by (cases "calcLayerDistances L P l") (auto simp: bindE_def)
  from closestLayer_step_Some obtain c' where "closestLayer_step (Some c) l res = Some c'" by blast
  with rest Cons.IH show ?case by simp
qed

lemma calcClosestLayer_nonempty:
  assumes "ls \<noteq> []" "calcClosestLayer L P ls = Inr r"
  shows "r \<noteq> None"
proof -
  from assms(1) obtain l ls' where ls: "ls = l # ls'" by (cases ls) auto
  from assms(2) ls obtain res where
    "calcClosestLayer_loop L P ls' (closestLayer_step None l res) = Inr r"
    by (cases "calcLayerDistances L P l") (auto simp: calcClosestLayer_def bindE_def)
  then show ?thesis
    by (simp add: closestLayer_step_None calcClosestLayer_loop_Some)
qed

lemma snapFeatures_not_early:
  assumes "snapList st \<noteq> []" "snapFeatures L st p = Inr fs"
  shows "fs \<noteq> EarlyReturn"
proof (cases "opt_snap (options st)")
  case False
  with assms(2) show ?thesis by (auto simp: snapFeatures_def)
next
  case True
  with assms(2) obtain r where r: "calcClosestLayer L p (snapList st) = Inr r"
    by (cases "calcClosestLayer L p (snapList st)") (auto simp: snapFeatures_def bindE_def)
  from calcClosestLayer_nonempty[OF assms(1) r] obtain cl where cl: "r = Some cl" by auto
  from assms(2) True r cl show ?thesis
    by (auto simp: snapFeatures_def bindE_def Let_def split: sum.splits if_splits)
qed







section \<open>Guide values equal to zero\<close>

lemma getNearbyvertices_moved_lng:
  "getNearbyvertices (map (\<lambda>v. (lng p + 1, lat v)) vs) p =
     \<lparr> verticalPx = None, horizontalPx = horizontalPx (getNearbyvertices vs p) \<rparr>"
  by (simp add: getNearbyvertices_def find_None_iff comp_def)

lemma getNearbyvertices_moved_lat:
  "getNearbyvertices (map (\<lambda>v. (lng v, lat p + 1)) vs) p =
     \<lparr> verticalPx = verticalPx (getNearbyvertices vs p), horizontalPx = None \<rparr>"
  by (simp add: getNearbyvertices_def find_None_iff comp_def)

lemma snapDecision_zero_vertical:
  "verticalPx g = Some 0 \<Longrightarrow>
     snapDecision fs g p = snapDecision fs \<lparr> verticalPx = None, horizontalPx = horizontalPx g \<rparr> p"
  by (simp add: snapDecision_def truthy_def)

lemma snapDecision_zero_horizontal:
  "horizontalPx g = Some 0 \<Longrightarrow>
     snapDecision fs g p = snapDecision fs \<lparr> verticalPx = verticalPx g, horizontalPx = None \<rparr> p"
  by (simp add: snapDecision_def truthy_def)

lemma snapGuides_zero_vertical:
  assumes "verticalPx (getNearbyvertices (vertices st) p) = Some 0"
  shows "snapGuides (st\<lparr> vertices := map (\<lambda>v. (lng p + 1, lat v)) (vertices st) \<rparr>) p =
           ((fst (snapGuides st p))\<lparr> vertices := map (\<lambda>v. (lng p + 1, lat v)) (vertices st) \<rparr>,
            \<lparr> verticalPx = None, horizontalPx = horizontalPx (snd (snapGuides st p)) \<rparr>)"
    and "verticalGuide (fst (snapGuides st p)) = verticalGuide st"
    and "opt_guides (options st) \<Longrightarrow> \<not> showVerticalSnapLine (fst (snapGuides st p))"
    and "opt_guides (options st) \<Longrightarrow> verticalPx (snd (snapGuides st p)) = Some 0"
    and "\<not> opt_guides (options st) \<Longrightarrow> verticalPx (snd (snapGuides st p)) = None"
  using assms
  by (simp_all add: snapGuides_def Let_def getNearbyvertices_moved_lng truthy_def
        split: option.splits)

lemma snapGuides_zero_horizontal:
  assumes "horizontalPx (getNearbyvertices (vertices st) p) = Some 0"
  shows "snapGuides (st\<lparr> vertices := map (\<lambda>v. (lng v, lat p + 1)) (vertices st) \<rparr>) p =
           ((fst (snapGuides st p))\<lparr> vertices := map (\<lambda>v. (lng v, lat p + 1)) (vertices st) \<rparr>,
            \<lparr> verticalPx = verticalPx (snd (snapGuides st p)), horizontalPx = None \<rparr>)"
    and "horizontalGuide (fst (snapGuides st p)) = horizontalGuide st"
    and "opt_guides (options st) \<Longrightarrow> \<not> showHorizontalSnapLine (fst (snapGuides st p))"
    and "opt_guides (options st) \<Longrightarrow> horizontalPx (snd (snapGuides st p)) = Some 0"
    and "\<not> opt_guides (options st) \<Longrightarrow> horizontalPx (snd (snapGuides st p)) = None"
  using assms
  by (simp_all add: snapGuides_def Let_def getNearbyvertices_moved_lat truthy_def
        split: option.splits)

lemma snap_cases:
  assumes "snap L st e = Inr (st', c)"
  obtains (bypass) "altKey e" "st' = st\<lparr> showVerticalSnapLine := False, showHorizontalSnapLine := False \<rparr>"
            "c = lngLat e"
  | (empty) "\<not> altKey e" "snapList st = []" "st' = st" "c = lngLat e"
  | (run) fs where "\<not> altKey e" "snapList st \<noteq> []" "snapFeatures L st (lngLat e) = Inr fs"
            "fs \<noteq> EarlyReturn" "st' = fst (snapGuides st (lngLat e))"
            "c = snapDecision fs (snd (snapGuides st (lngLat e))) (lngLat e)"
proof (cases "altKey e")
  case True
  with assms have "st' = st\<lparr> showVerticalSnapLine := False, showHorizontalSnapLine := False \<rparr>"
    and "c = lngLat e" by (simp_all add: snap_def)
  with True show ?thesis by (rule bypass)
next
  case alt: False
  show ?thesis
  proof (cases "snapList st = []")
    case True
    with alt assms have "st' = st" "c = lngLat e" by (simp_all add: snap_def)
    with alt True show ?thesis by (rule empty)
  next
    case ne: False
    from assms alt ne obtain fs where fs: "snapFeatures L st (lngLat e) = Inr fs"
      by (cases "snapFeatures L st (lngLat e)") (simp_all add: snap_unfold bindE_def)
    from snapFeatures_not_early[OF ne fs] have nr: "fs \<noteq> EarlyReturn" .
    with assms alt ne fs have "st' = fst (snapGuides st (lngLat e))"
      and "c = snapDecision fs (snd (snapGuides st (lngLat e))) (lngLat e)"
      by (simp_all add: snap_unfold bindE_def)
    with alt ne fs nr show ?thesis by (rule run)
  qed
qed

lemma zero_vertical:
  assumes v0: "verticalPx (getNearbyvertices (vertices st) (lngLat e)) = Some 0"
    and run: "snap L st e = Inr (st', c)"
  shows "verticalGuide st' = verticalGuide st"
    and "\<not> altKey e \<and> snapList st \<noteq> [] \<and> opt_guides (options st) \<longrightarrow> \<not> showVerticalSnapLine st'"
    and "lng c = lng (lngLat e)
         \<or> (\<exists>cl sll md. snapFeatures L st (lngLat e) = Inr (Found cl sll md)
               \<and> js_lt (map_option (\<lambda>d. d * 1000) (distance cl)) (Some md) \<and> c = sll)"
    and "snap L (st\<lparr> vertices := map (\<lambda>v. (lng (lngLat e) + 1, lat v)) (vertices st) \<rparr>) e =
           Inr (st'\<lparr> vertices := map (\<lambda>v. (lng (lngLat e) + 1, lat v)) (vertices st) \<rparr>, c)"
proof -
  let ?p = "lngLat e"
  let ?st0 = "st\<lparr> vertices := map (\<lambda>v. (lng ?p + 1, lat v)) (vertices st) \<rparr>"
  note z = snapGuides_zero_vertical[OF v0]
  have A: "verticalGuide st' = verticalGuide st
           \<and> (\<not> altKey e \<and> snapList st \<noteq> [] \<and> opt_guides (options st) \<longrightarrow> \<not> showVerticalSnapLine st')
           \<and> (lng c = lng ?p
               \<or> (\<exists>cl sll md. snapFeatures L st ?p = Inr (Found cl sll md)
                     \<and> js_lt (map_option (\<lambda>d. d * 1000) (distance cl)) (Some md) \<and> c = sll))
           \<and> snap L ?st0 e = Inr (st'\<lparr> vertices := map (\<lambda>v. (lng ?p + 1, lat v)) (vertices st) \<rparr>, c)"
    using run
  proof (cases rule: snap_cases)
    case bypass
    then show ?thesis by (simp add: snap_def)
  next
    case empty
    then show ?thesis by (simp add: snap_def)
  next
    case (run fs)
    have vg: "verticalPx (snd (snapGuides st ?p)) = Some 0 \<or> verticalPx (snd (snapGuides st ?p)) = None"
      by (cases "opt_guides (options st)") (simp_all add: z(4,5))
    have dec: "snapDecision fs \<lparr> verticalPx = None, horizontalPx = horizontalPx (snd (snapGuides st ?p)) \<rparr> ?p
                 = snapDecision fs (snd (snapGuides st ?p)) ?p"
      using vg
    proof
      assume "verticalPx (snd (snapGuides st ?p)) = Some 0"
      then show ?thesis by (simp add: snapDecision_zero_vertical)
    next
      assume "verticalPx (snd (snapGuides st ?p)) = None"
      then have "\<lparr> verticalPx = None, horizontalPx = horizontalPx (snd (snapGuides st ?p)) \<rparr>
                   = snd (snapGuides st ?p)" by (cases "snd (snapGuides st ?p)") simp
      then show ?thesis by simp
    qed
    have f0: "snapFeatures L ?st0 ?p = Inr fs"
      using run(3) snapFeatures_cong[of ?st0 st L ?p] by simp
    have ne0: "snapList ?st0 \<noteq> []" using run(2) by simp
    have eq: "snap L ?st0 e = Inr (st'\<lparr> vertices := map (\<lambda>v. (lng ?p + 1, lat v)) (vertices st) \<rparr>, c)"
      unfolding snap_unfold[OF run(1) ne0] f0 bindE_def
      using run(4,5,6) dec by (simp add: z(1))
    have raw: "lng c = lng ?p
               \<or> (\<exists>cl sll md. snapFeatures L st ?p = Inr (Found cl sll md)
                     \<and> js_lt (map_option (\<lambda>d. d * 1000) (distance cl)) (Some md) \<and> c = sll)"
    proof (cases fs)
      case (Found cl sll md)
      show ?thesis
      proof (cases "js_lt (map_option (\<lambda>d. d * 1000) (distance cl)) (Some md)")
        case True
        with Found run(6) have "c = sll" by (simp add: snapDecision_def)
        with True Found run(3) show ?thesis by blast
      next
        case False
        with Found vg run(6) have "lng c = lng ?p"
          by (auto simp: snapDecision_def truthy_def split: option.splits)
        then show ?thesis by blast
      qed
    next
      case NotRun
      with vg run(6) have "lng c = lng ?p"
        by (auto simp: snapDecision_def truthy_def split: option.splits)
      then show ?thesis by blast
    next
      case EarlyReturn
      with run(4) show ?thesis by simp
    qed
    from run(5) z(2,3) eq raw show ?thesis by simp
  qed
  from A show "verticalGuide st' = verticalGuide st"
    and "\<not> altKey e \<and> snapList st \<noteq> [] \<and> opt_guides (options st) \<longrightarrow> \<not> showVerticalSnapLine st'"
    and "lng c = lng (lngLat e)
         \<or> (\<exists>cl sll md. snapFeatures L st (lngLat e) = Inr (Found cl sll md)
               \<and> js_lt (map_option (\<lambda>d. d * 1000) (distance cl)) (Some md) \<and> c = sll)"
    and "snap L (st\<lparr> vertices := map (\<lambda>v. (lng (lngLat e) + 1, lat v)) (vertices st) \<rparr>) e =
           Inr (st'\<lparr> vertices := map (\<lambda>v. (lng (lngLat e) + 1, lat v)) (vertices st) \<rparr>, c)"
    by simp_all
qed

lemma zero_horizontal:
  assumes v0: "horizontalPx (getNearbyvertices (vertices st) (lngLat e)) = Some 0"
    and run: "snap L st e = Inr (st', c)"
  shows "horizontalGuide st' = horizontalGuide st"
    and "\<not> altKey e \<and> snapList st \<noteq> [] \<and> opt_guides (options st) \<longrightarrow> \<not> showHorizontalSnapLine st'"
    and "lat c = lat (lngLat e)
         \<or> (\<exists>cl sll md. snapFeatures L st (lngLat e) = Inr (Found cl sll md)
               \<and> js_lt (map_option (\<lambda>d. d * 1000) (distance cl)) (Some md) \<and> c = sll)"
    and "snap L (st\<lparr> vertices := map (\<lambda>v. (lng v, lat (lngLat e) + 1)) (vertices st) \<rparr>) e =
           Inr (st'\<lparr> vertices := map (\<lambda>v. (lng v, lat (lngLat e) + 1)) (vertices st) \<rparr>, c)"
proof -
  let ?p = "lngLat e"
  let ?st0 = "st\<lparr> vertices := map (\<lambda>v. (lng v, lat ?p + 1)) (vertices st) \<rparr>"
  note z = snapGuides_zero_horizontal[OF v0]
  have A: "horizontalGuide st' = horizontalGuide st
           \<and> (\<not> altKey e \<and> snapList st \<noteq> [] \<and> opt_guides (options st) \<longrightarrow> \<not> showHorizontalSnapLine st')
           \<and> (lat c = lat ?p
               \<or> (\<exists>cl sll md. snapFeatures L st ?p = Inr (Found cl sll md)
                     \<and> js_lt (map_option (\<lambda>d. d * 1000) (distance cl)) (Some md) \<and> c = sll))
           \<and> snap L ?st0 e = Inr (st'\<lparr> vertices := map (\<lambda>v. (lng v, lat ?p + 1)) (vertices st) \<rparr>, c)"
    using run
  proof (cases rule: snap_cases)
    case bypass
    then show ?thesis by (simp add: snap_def)
  next
    case empty
    then show ?thesis by (simp add: snap_def)
  next
    case (run fs)
    have vg: "horizontalPx (snd (snapGuides st ?p)) = Some 0 \<or> horizontalPx (snd (snapGuides st ?p)) = None"
      by (cases "opt_guides (options st)") (simp_all add: z(4,5))
    have dec: "snapDecision fs \<lparr> verticalPx = verticalPx (snd (snapGuides st ?p)), horizontalPx = None \<rparr> ?p
                 = snapDecision fs (snd (snapGuides st ?p)) ?p"
      using vg
    proof
      assume "horizontalPx (snd (snapGuides st ?p)) = Some 0"
      then show ?thesis by (simp add: snapDecision_zero_horizontal)
    next
      assume "horizontalPx (snd (snapGuides st ?p)) = None"
      then have "\<lparr> verticalPx = verticalPx (snd (snapGuides st ?p)), horizontalPx = None \<rparr>
                   = snd (snapGuides st ?p)" by (cases "snd (snapGuides st ?p)") simp
      then show ?thesis by simp
    qed
    have f0: "snapFeatures L ?st0 ?p = Inr fs"
      using run(3) snapFeatures_cong[of ?st0 st L ?p] by simp
    have ne0: "snapList ?st0 \<noteq> []" using run(2) by simp
    have eq: "snap L ?st0 e = Inr (st'\<lparr> vertices := map (\<lambda>v. (lng v, lat ?p + 1)) (vertices st) \<rparr>, c)"
      unfolding snap_unfold[OF run(1) ne0] f0 bindE_def
      using run(4,5,6) dec by (simp add: z(1))
    have raw: "lat c = lat ?p
               \<or> (\<exists>cl sll md. snapFeatures L st ?p = Inr (Found cl sll md)
                     \<and> js_lt (map_option (\<lambda>d. d * 1000) (distance cl)) (Some md) \<and> c = sll)"
    proof (cases fs)
      case (Found cl sll md)
      show ?thesis
      proof (cases "js_lt (map_option (\<lambda>d. d * 1000) (distance cl)) (Some md)")
        case True
        with Found run(6) have "c = sll" by (simp add: snapDecision_def)
        with True Found run(3) show ?thesis by blast
      next
        case False
        with Found vg run(6) have "lat c = lat ?p"
          by (auto simp: snapDecision_def truthy_def split: option.splits)
        then show ?thesis by blast
      qed
    next
      case NotRun
      with vg run(6) have "lat c = lat ?p"
        by (auto simp: snapDecision_def truthy_def split: option.splits)
      then show ?thesis by blast
    next
      case EarlyReturn
      with run(4) show ?thesis by simp
    qed
    from run(5) z(2,3) eq raw show ?thesis by simp
  qed
  from A show "horizontalGuide st' = horizontalGuide st"
    and "\<not> altKey e \<and> snapList st \<noteq> [] \<and> opt_guides (options st) \<longrightarrow> \<not> showHorizontalSnapLine st'"
    and "lat c = lat (lngLat e)
         \<or> (\<exists>cl sll md. snapFeatures L st (lngLat e) = Inr (Found cl sll md)
               \<and> js_lt (map_option (\<lambda>d. d * 1000) (distance cl)) (Some md) \<and> c = sll)"
    and "snap L (st\<lparr> vertices := map (\<lambda>v. (lng v, lat (lngLat e) + 1)) (vertices st) \<rparr>) e =
           Inr (st'\<lparr> vertices := map (\<lambda>v. (lng v, lat (lngLat e) + 1)) (vertices st) \<rparr>, c)"
    by simp_all
qed

lemma guide_resolver_first_match:
  "(verticalPx (getNearbyvertices vs q) = None \<longleftrightarrow> (\<forall>v \<in> set vs. \<not> \<bar>lng v - lng q\<bar> < 0.009))
   \<and> (verticalPx (getNearbyvertices vs q) = Some x \<longleftrightarrow>
        (\<exists>i < length vs. lng (vs ! i) = x \<and> \<bar>x - lng q\<bar> < 0.009
            \<and> (\<forall>j < i. \<not> \<bar>lng (vs ! j) - lng q\<bar> < 0.009)))
   \<and> (horizontalPx (getNearbyvertices vs q) = None \<longleftrightarrow> (\<forall>v \<in> set vs. \<not> \<bar>lat v - lat q\<bar> < 0.009))
   \<and> (horizontalPx (getNearbyvertices vs q) = Some y \<longleftrightarrow>
        (\<exists>i < length vs. lat (vs ! i) = y \<and> \<bar>y - lat q\<bar> < 0.009
            \<and> (\<forall>j < i. \<not> \<bar>lat (vs ! j) - lat q\<bar> < 0.009)))"
  by (auto simp: getNearbyvertices_def find_None_iff find_Some_iff)

lemma guide_endpoints_written:
  assumes "\<not> altKey e" "snapList st \<noteq> []" "opt_guides (options st)"
    and "snap L st e = Inr (st', c)"
    and "verticalPx (getNearbyvertices (vertices st) (lngLat e)) = Some v" "v \<noteq> 0"
  shows "verticalGuide st' 0 = Some (v, lat (lngLat e) + 10)
         \<and> verticalGuide st' 1 = Some (v, lat (lngLat e) - 10)
         \<and> showVerticalSnapLine st'"
  using assms(4)
proof (cases rule: snap_cases)
  case (run fs)
  with assms(3,5,6) show ?thesis
    by (simp add: snapGuides_def Let_def updateCoordinate_def truthy_def split: option.splits)
qed (use assms in simp_all)

lemma lineResults_isMarker:
  "lineResults g np = Inr r \<Longrightarrow> isMarker r = Some False"
  by (auto simp: lineResults_def Let_def split: option.splits)

lemma calcLayerDistances_isMarker:
  assumes "calcLayerDistances L P l = Inr r"
  shows "isMarker r \<noteq> Some True"
proof (cases "geometry l")
  case (Point x)
  with assms show ?thesis by (auto simp: calcLayerDistances_def)
next
  case (MultiPoint x)
  with assms show ?thesis
    by (auto simp: calcLayerDistances_def bindE_def split: sum.splits)
next
  case (LineString x)
  with assms show ?thesis
    by (auto simp: calcLayerDistances_def bindE_def split: sum.splits dest: lineResults_isMarker)
next
  case (MultiLineString x)
  with assms show ?thesis
    by (auto simp: calcLayerDistances_def bindE_def split: sum.splits dest: lineResults_isMarker)
next
  case (Polygon x)
  with assms show ?thesis
    by (auto simp: calcLayerDistances_def bindE_def split: sum.splits dest: lineResults_isMarker)
next
  case (MultiPolygon x)
  with assms show ?thesis
    by (auto simp: calcLayerDistances_def bindE_def split: sum.splits dest: lineResults_isMarker)
next
  case (GeometryCollection x)
  with assms show ?thesis
    by (auto simp: calcLayerDistances_def bindE_def split: sum.splits dest: lineResults_isMarker)
qed

lemma calcClosestLayer_loop_isMarker:
  "calcClosestLayer_loop L P ls acc = Inr (Some cl) \<Longrightarrow>
     (\<forall>c. acc = Some c \<longrightarrow> isMarker c \<noteq> Some True) \<Longrightarrow> isMarker cl \<noteq> Some True"
proof (induction ls arbitrary: acc)
  case Nil
  then show ?case by simp
next
  case (Cons l ls)
  from Cons.prems(1) obtain res where res: "calcLayerDistances L P l = Inr res"
    and rest: "calcClosestLayer_loop L P ls (closestLayer_step acc l res) = Inr (Some cl)"
    by (cases "calcLayerDistances L P l") (auto simp: bindE_def)
  from calcLayerDistances_isMarker[OF res] Cons.prems(2)
  have "\<forall>c. closestLayer_step acc l res = Some c \<longrightarrow> isMarker c \<noteq> Some True"
    by (auto simp: closestLayer_step_def Let_def split: if_splits)
  from Cons.IH[OF rest this] show ?case .
qed

lemma snap_three_way:
  assumes "\<not> altKey e" "snapList st \<noteq> []" "opt_snap (options st)"
    and run: "snap L st e = Inr (st', c)"
  shows "\<exists>cl snapLatLng.
           calcClosestLayer L (lngLat e) (snapList st) = Inr (Some cl)
         \<and> checkPrioritiySnapping L cl (snapOptions (options st))
              (case snapOptions (options st) of None \<Rightarrow> None
               | Some so \<Rightarrow> snapVertexPriorityDistance so) = Inr snapLatLng
         \<and> c = (let px = (case snapOptions (options st) of None \<Rightarrow> 50
                           | Some so \<Rightarrow> (case snapPx so of None \<Rightarrow> 50
                                          | Some v \<Rightarrow> if v \<noteq> 0 then v else 50));
                     g = snd (snapGuides st (lngLat e))
                 in if js_lt (map_option (\<lambda>d. d * 1000) (distance cl))
                         (Some (px * metersPerPixel (lat (lngLat e)) (zoom st)))
                    then snapLatLng
                    else ((case verticalPx g of Some v \<Rightarrow> if v \<noteq> 0 then v else lng (lngLat e)
                           | None \<Rightarrow> lng (lngLat e)),
                          (case horizontalPx g of Some h \<Rightarrow> if h \<noteq> 0 then h else lat (lngLat e)
                           | None \<Rightarrow> lat (lngLat e))))"
  using run
proof (cases rule: snap_cases)
  case (run fs)
  let ?p = "lngLat e"
  from run(3) assms(3) obtain r where r: "calcClosestLayer L ?p (snapList st) = Inr r"
    by (cases "calcClosestLayer L ?p (snapList st)") (auto simp: snapFeatures_def bindE_def)
  from calcClosestLayer_nonempty[OF assms(2) r] obtain cl where cl: "r = Some cl" by auto
  from r cl have m: "isMarker cl \<noteq> Some True"
    using calcClosestLayer_loop_isMarker[of L ?p "snapList st" None cl]
    by (simp add: calcClosestLayer_def)
  from run(3) assms(3) r cl m obtain sll where
    sll: "checkPrioritiySnapping L cl (snapOptions (options st))
            (case snapOptions (options st) of None \<Rightarrow> None
             | Some so \<Rightarrow> snapVertexPriorityDistance so) = Inr sll"
    and fs: "fs = Found cl sll
               ((case snapOptions (options st) of None \<Rightarrow> 50
                 | Some so \<Rightarrow> (case snapPx so of None \<Rightarrow> 50
                                | Some v \<Rightarrow> if v \<noteq> 0 then v else 50))
                * metersPerPixel (lat ?p) (zoom st))"
    by (cases "checkPrioritiySnapping L cl (snapOptions (options st))
            (case snapOptions (options st) of None \<Rightarrow> None
             | Some so \<Rightarrow> snapVertexPriorityDistance so)")
       (auto simp: snapFeatures_def bindE_def Let_def)
  have "c = snapDecision fs (snd (snapGuides st ?p)) ?p" by (rule run(6))
  then show ?thesis
    using r cl sll
    unfolding fs snapDecision_def Let_def truthy_def
    by (auto split: option.splits)
qed (use assms in simp_all)

lemma origin_run:
  "snap planar origin_session origin_event =
     Inr (origin_session\<lparr> showVerticalSnapLine := False, showHorizontalSnapLine := False \<rparr>,
          (0.001, 0))"
  by (simp add: run_defs origin_session_def origin_event_def)

lemma origin_guides:
  "getNearbyvertices (vertices origin_session) (lngLat origin_event)
     = \<lparr> verticalPx = Some 0, horizontalPx = Some 0 \<rparr>"
  by (simp add: getNearbyvertices_def origin_session_def origin_event_def)

text \<open>
  C10. When the first matching guide value on an axis is the number 0, \<open>snap\<close> behaves
  as if no guide had matched on that axis: the guide of that axis keeps its endpoints,
  its visibility flag is false after a call that reaches the guide resolver, the
  component of the returned coordinate on that axis is the raw one unless the snap
  coordinate of a feature within tolerance is returned, and the call has the result
  and the effects of the same call on a session whose vertices are out of reach on
  that axis.
\<close>

theorem zero_guide_is_no_guide:
  assumes run: "snap L st e = Inr (st', c)"
  shows "(verticalPx (getNearbyvertices (vertices st) (lngLat e)) = Some 0 \<longrightarrow>
            verticalGuide st' = verticalGuide st
          \<and> (\<not> altKey e \<and> snapList st \<noteq> [] \<and> opt_guides (options st)
                \<longrightarrow> \<not> showVerticalSnapLine st')
          \<and> (lng c = lng (lngLat e)
                \<or> (\<exists>cl sll md. snapFeatures L st (lngLat e) = Inr (Found cl sll md)
                      \<and> js_lt (map_option (\<lambda>d. d * 1000) (distance cl)) (Some md) \<and> c = sll))
          \<and> snap L (st\<lparr> vertices := map (\<lambda>v. (lng (lngLat e) + 1, lat v)) (vertices st) \<rparr>) e =
              Inr (st'\<lparr> vertices := map (\<lambda>v. (lng (lngLat e) + 1, lat v)) (vertices st) \<rparr>, c))
       \<and> (horizontalPx (getNearbyvertices (vertices st) (lngLat e)) = Some 0 \<longrightarrow>
            horizontalGuide st' = horizontalGuide st
          \<and> (\<not> altKey e \<and> snapList st \<noteq> [] \<and> opt_guides (options st)
                \<longrightarrow> \<not> showHorizontalSnapLine st')
          \<and> (lat c = lat (lngLat e)
                \<or> (\<exists>cl sll md. snapFeatures L st (lngLat e) = Inr (Found cl sll md)
                      \<and> js_lt (map_option (\<lambda>d. d * 1000) (distance cl)) (Some md) \<and> c = sll))
          \<and> snap L (st\<lparr> vertices := map (\<lambda>v. (lng v, lat (lngLat e) + 1)) (vertices st) \<rparr>) e =
              Inr (st'\<lparr> vertices := map (\<lambda>v. (lng v, lat (lngLat e) + 1)) (vertices st) \<rparr>, c))"
proof (rule conjI; rule impI)
  assume v0: "verticalPx (getNearbyvertices (vertices st) (lngLat e)) = Some 0"
  from zero_vertical[OF v0 run]
  show "verticalGuide st' = verticalGuide st
          \<and> (\<not> altKey e \<and> snapList st \<noteq> [] \<and> opt_guides (options st)
                \<longrightarrow> \<not> showVerticalSnapLine st')
          \<and> (lng c = lng (lngLat e)
                \<or> (\<exists>cl sll md. snapFeatures L st (lngLat e) = Inr (Found cl sll md)
                      \<and> js_lt (map_option (\<lambda>d. d * 1000) (distance cl)) (Some md) \<and> c = sll))
          \<and> snap L (st\<lparr> vertices := map (\<lambda>v. (lng (lngLat e) + 1, lat v)) (vertices st) \<rparr>) e =
              Inr (st'\<lparr> vertices := map (\<lambda>v. (lng (lngLat e) + 1, lat v)) (vertices st) \<rparr>, c)"
    by (intro conjI)
next
  assume h0: "horizontalPx (getNearbyvertices (vertices st) (lngLat e)) = Some 0"
  from zero_horizontal[OF h0 run]
  show "horizontalGuide st' = horizontalGuide st
          \<and> (\<not> altKey e \<and> snapList st \<noteq> [] \<and> opt_guides (options st)
                \<longrightarrow> \<not> showHorizontalSnapLine st')
          \<and> (lat c = lat (lngLat e)
                \<or> (\<exists>cl sll md. snapFeatures L st (lngLat e) = Inr (Found cl sll md)
                      \<and> js_lt (map_option (\<lambda>d. d * 1000) (distance cl)) (Some md) \<and> c = sll))
          \<and> snap L (st\<lparr> vertices := map (\<lambda>v. (lng v, lat (lngLat e) + 1)) (vertices st) \<rparr>) e =
              Inr (st'\<lparr> vertices := map (\<lambda>v. (lng v, lat (lngLat e) + 1)) (vertices st) \<rparr>, c)"
    by (intro conjI)
qed

theorem zero_guide_is_no_guide_witness:
  "verticalPx (getNearbyvertices (vertices origin_session) (lngLat origin_event)) = Some 0
   \<and> horizontalPx (getNearbyvertices (vertices origin_session) (lngLat origin_event)) = Some 0
   \<and> \<not> altKey origin_event \<and> snapList origin_session \<noteq> [] \<and> opt_guides (options origin_session)
   \<and> showVerticalSnapLine origin_session \<and> showHorizontalSnapLine origin_session
   \<and> snap planar origin_session origin_event =
        Inr (origin_session\<lparr> showVerticalSnapLine := False, showHorizontalSnapLine := False \<rparr>,
             (0.001, 0))
   \<and> snap planar (origin_session\<lparr> vertices := [(1.001, 0)] \<rparr>) origin_event =
        Inr (origin_session\<lparr> showVerticalSnapLine := False, showHorizontalSnapLine := False,
                              vertices := [(1.001, 0)] \<rparr>, (0.001, 0))"
proof -
  have v0: "verticalPx (getNearbyvertices (vertices origin_session) (lngLat origin_event)) = Some 0"
    and h0: "horizontalPx (getNearbyvertices (vertices origin_session) (lngLat origin_event)) = Some 0"
    by (simp_all add: origin_guides)
  have pre: "\<not> altKey origin_event \<and> snapList origin_session \<noteq> [] \<and> opt_guides (options origin_session)
     \<and> showVerticalSnapLine origin_session \<and> showHorizontalSnapLine origin_session"
    by (simp add: origin_session_def origin_event_def)
  from zero_guide_is_no_guide[OF origin_run] v0
  have "snap planar (origin_session\<lparr> vertices := map (\<lambda>v. (lng (lngLat origin_event) + 1, lat v))
                                                    (vertices origin_session) \<rparr>) origin_event =
        Inr ((origin_session\<lparr> showVerticalSnapLine := False, showHorizontalSnapLine := False \<rparr>)
               \<lparr> vertices := map (\<lambda>v. (lng (lngLat origin_event) + 1, lat v))
                                (vertices origin_session) \<rparr>, (0.001, 0))"
    by blast
  moreover have "map (\<lambda>v. (lng (lngLat origin_event) + 1, lat v)) (vertices origin_session)
                   = [(1.001, 0)]"
    by (simp add: origin_session_def origin_event_def)
  ultimately show ?thesis
    using v0 h0 pre origin_run by simp
qed

lemma guided_run:
  "snap planar guided_session guided_event =
     Inr (guided_session\<lparr> verticalGuide := [0 \<mapsto> (10, 10), 1 \<mapsto> (10, -10)],
                          showVerticalSnapLine := True \<rparr>, (10, 0))"
  by (simp add: run_defs guided_session_def guided_event_def)

text \<open>
  C1 at a pointer 0.001 degrees east of a candidate point on the prime meridian, at
  zoom 20: the candidate is 100 m away in the planar instance and the tolerance is
  below 8 m, so the feature is out of reach; the vertex longitude 0 is within 0.009
  degrees of the pointer, and yet the longitude returned is the raw 0.001, not the
  guide value 0.
\<close>

theorem meridian_guide_not_applied:
  "snapFeatures planar origin_session (lngLat origin_event) =
     Inr (Found \<lparr> latlng = (0, 0), segment = None, distance = Some (1 / 10), isMarker = None,
                   layer = Some \<lparr> feature_id = ''origin'', geometry = Point (0, 0) \<rparr> \<rparr>
            (0, 0) (50 * (40075017 / 268435456)))
   \<and> \<not> ((1 / 10) * 1000 < 50 * (40075017 / 268435456 :: real))
   \<and> verticalPx (getNearbyvertices (vertices origin_session) (lngLat origin_event)) = Some 0
   \<and> snap planar origin_session origin_event =
       Inr (origin_session\<lparr> showVerticalSnapLine := False, showHorizontalSnapLine := False \<rparr>,
            (0.001, 0))"
proof -
  have "snapFeatures planar origin_session (lngLat origin_event) =
     Inr (Found \<lparr> latlng = (0, 0), segment = None, distance = Some (1 / 10), isMarker = None,
                   layer = Some \<lparr> feature_id = ''origin'', geometry = Point (0, 0) \<rparr> \<rparr>
            (0, 0) (50 * (40075017 / 268435456)))"
    by (simp add: run_defs origin_session_def origin_event_def)
  moreover have "\<not> ((1 / 10) * 1000 < 50 * (40075017 / 268435456 :: real))" by simp
  ultimately show ?thesis
    using origin_run origin_guides by simp
qed

text \<open>
  C4 at the same input: the vertex longitude 0 is the first one within 0.009 degrees of
  the pointer longitude 0.001, and yet the vertical guide keeps its (empty) coordinates
  and is hidden; with the vertex at longitude 10 and the pointer at 10.0005 both
  endpoints are written with longitude 10 and the latitudes 10 and -10.
\<close>

theorem meridian_guide_not_drawn:
  "verticalPx (getNearbyvertices (vertices origin_session) (lngLat origin_event)) = Some 0
   \<and> (case snap planar origin_session origin_event of
         Inl err \<Rightarrow> False
       | Inr r \<Rightarrow> verticalGuide (fst r) 0 = None \<and> verticalGuide (fst r) 1 = None
                  \<and> \<not> showVerticalSnapLine (fst r))
   \<and> verticalPx (getNearbyvertices (vertices guided_session) (lngLat guided_event)) = Some 10
   \<and> (case snap planar guided_session guided_event of
         Inl err \<Rightarrow> False
       | Inr r \<Rightarrow> verticalGuide (fst r) 0 = Some (10, 10)
                  \<and> verticalGuide (fst r) 1 = Some (10, -10)
                  \<and> showVerticalSnapLine (fst r))"
proof -
  have "verticalPx (getNearbyvertices (vertices guided_session) (lngLat guided_event)) = Some 10"
    by (simp add: getNearbyvertices_def guided_session_def guided_event_def)
  moreover have "verticalGuide origin_session = Map.empty" by (simp add: origin_session_def)
  ultimately show ?thesis
    unfolding origin_run guided_run origin_guides by simp
qed

end
